theory Spec2Isabelle
  imports Complex_Main
begin

section \<open>Spotlight cards: pointer tilt and focus-dim siblings\<close>

text \<open>
  A shallow embedding of \<^verbatim>\<open>src/components/kokonutui/spotlight-cards.tsx\<close>.
  A function component is a pure function of its props and of the values its hooks
  hold; an event handler is a function from the hook values before the event to the
  hook values after it. Springs are represented by their targets only: the time a
  spring takes to reach its target is outside the model.
\<close>

subsection \<open>Numbers\<close>

text \<open>
  The numbers a browser hands to the handlers (pointer position, bounding box) are
  finite and are taken as reals: rounding of IEEE doubles is idealised. A division
  in JavaScript does not fail on a zero divisor, it yields an infinity or NaN, so the
  values stored in the motion values are of type \<open>jsnum\<close>.
\<close>

datatype jsnum = Num real | Infinity | NegInfinity | NaN

definition js_div :: "real \<Rightarrow> real \<Rightarrow> jsnum" where
  "js_div a b =
     (if b \<noteq> 0 then Num (a / b)
      else if a = 0 then NaN
      else if 0 < a then Infinity
      else NegInfinity)"

subsection \<open>Constants and data\<close>

definition TILT_MAX :: real where
  "TILT_MAX = 9"

datatype LucideIcon = Cloud | Code | Cpu | Globe | Lock | Zap

record SpotlightItem =
  icon :: LucideIcon
  title :: string
  description :: string
  color :: string

definition DEFAULT_ITEMS :: "SpotlightItem list" where
  "DEFAULT_ITEMS =
     [\<lparr>icon = Zap, title = ''Instant'',
       description = ''Sub-100ms latency on every request, globally distributed across every region.'',
       color = ''#f59e0b''\<rparr>,
      \<lparr>icon = Lock, title = ''Secure'',
       description = ''Zero-trust by default. SOC 2 certified with end-to-end encryption throughout.'',
       color = ''#60a5fa''\<rparr>,
      \<lparr>icon = Globe, title = ''Global'',
       description = ''Edge-deployed to 300+ locations. Your users always hit a nearby server.'',
       color = ''#34d399''\<rparr>,
      \<lparr>icon = Code, title = ''Developer first'',
       description = ''Type-safe SDKs in five languages, a complete REST API, and honest docs.'',
       color = ''#a78bfa''\<rparr>,
      \<lparr>icon = Cpu, title = ''Scalable'',
       description = ''From side project to Series B without touching your infrastructure config.'',
       color = ''#38bdf8''\<rparr>,
      \<lparr>icon = Cloud, title = ''Serverless'',
       description = ''No servers to provision, patch, or babysit. Just deploy and move on.'',
       color = ''#f472b6''\<rparr>]"

subsection \<open>The motion library's range mapping\<close>

text \<open>
  Modelled from the spec: \<^verbatim>\<open>useTransform\<close> is imported from \<^verbatim>\<open>motion/react\<close> and is
  not part of the source. The spec describes the tilt mapping as sending a normalized
  coordinate to a rotation "clamped to a fixed maximum magnitude"; the two-point form
  used by the source, \<^verbatim>\<open>useTransform(v, [i0, i1], [o0, o1])\<close>, is taken as the
  library's linear interpolation with its default clamping: the value is clamped to
  the input range, its progress through that range is computed, and the progress is
  mixed linearly between the two outputs. A comparison with NaN is false, so NaN
  passes through the clamp and through the arithmetic.
\<close>

definition clamp :: "real \<Rightarrow> real \<Rightarrow> jsnum \<Rightarrow> jsnum" where
  "clamp mn mx v =
     (case v of
        Num x \<Rightarrow> if mx < x then Num mx else if x < mn then Num mn else Num x
      | Infinity \<Rightarrow> Num mx
      | NegInfinity \<Rightarrow> Num mn
      | NaN \<Rightarrow> NaN)"

definition progress :: "real \<Rightarrow> real \<Rightarrow> real \<Rightarrow> real" where
  "progress from to v = (if to - from = 0 then 1 else (v - from) / (to - from))"

definition mixNumber :: "real \<Rightarrow> real \<Rightarrow> real \<Rightarrow> real" where
  "mixNumber from to p = from + (to - from) * p"

definition useTransform :: "jsnum \<Rightarrow> real \<times> real \<Rightarrow> real \<times> real \<Rightarrow> jsnum" where
  "useTransform v inputRange outputRange =
     (case clamp (fst inputRange) (snd inputRange) v of
        Num x \<Rightarrow>
          Num (mixNumber (fst outputRange) (snd outputRange)
                 (progress (fst inputRange) (snd inputRange) x))
      | other \<Rightarrow> NaN)"

subsection \<open>The DOM values a card reads\<close>

record DOMRect =
  rect_left :: real
  rect_top :: real
  rect_width :: real
  rect_height :: real

text \<open>An element is represented by what the card asks of it: its bounding box.\<close>

record HTMLDivElement =
  getBoundingClientRect :: DOMRect

record MouseEvent =
  clientX :: real
  clientY :: real

subsection \<open>Card\<close>

text \<open>
  The container's state is the hovered title or null; the callbacks a card receives
  are updates of that state.
\<close>

type_synonym hover = "string option"

record CardProps =
  item :: SpotlightItem
  dimmed :: bool
  onHoverStart :: "hover \<Rightarrow> hover"
  onHoverEnd :: "hover \<Rightarrow> hover"

text \<open>
  The values held by the hooks of one card: \<^verbatim>\<open>cardRef.current\<close> (null is \<open>None\<close>),
  the two motion values and the target of the glow spring.
\<close>

record CardState =
  cardRef :: "HTMLDivElement option"
  normX :: jsnum
  normY :: jsnum
  glowOpacity :: real

definition initialCard :: CardState where
  "initialCard = \<lparr>cardRef = None, normX = Num 0.5, normY = Num 0.5, glowOpacity = 0\<rparr>"

definition rawRotateX :: "CardState \<Rightarrow> jsnum" where
  "rawRotateX c = useTransform (normY c) (0, 1) (TILT_MAX, - TILT_MAX)"

definition rawRotateY :: "CardState \<Rightarrow> jsnum" where
  "rawRotateY c = useTransform (normX c) (0, 1) (- TILT_MAX, TILT_MAX)"

definition handleMouseMove :: "MouseEvent \<Rightarrow> CardState \<Rightarrow> CardState" where
  "handleMouseMove e c =
     (case cardRef c of
        None \<Rightarrow> c
      | Some el \<Rightarrow>
          (let rect = getBoundingClientRect el in
           c\<lparr>normX := js_div (clientX e - rect_left rect) (rect_width rect),
             normY := js_div (clientY e - rect_top rect) (rect_height rect)\<rparr>))"

definition handleMouseEnter :: "CardProps \<Rightarrow> CardState \<times> hover \<Rightarrow> CardState \<times> hover" where
  "handleMouseEnter p ch =
     (case ch of (c, h) \<Rightarrow> (c\<lparr>glowOpacity := 1\<rparr>, onHoverStart p h))"

definition handleMouseLeave :: "CardProps \<Rightarrow> CardState \<times> hover \<Rightarrow> CardState \<times> hover" where
  "handleMouseLeave p ch =
     (case ch of (c, h) \<Rightarrow>
        (c\<lparr>normX := Num 0.5, normY := Num 0.5, glowOpacity := 0\<rparr>, onHoverEnd p h))"

text \<open>What a card renders from its props and hook values, as far as it varies.\<close>

record CardView =
  animate_scale :: real
  animate_opacity :: real
  rotateX_target :: jsnum
  rotateY_target :: jsnum
  glow_target :: real
  shown_title :: string
  shown_description :: string

definition Card :: "CardProps \<Rightarrow> CardState \<Rightarrow> CardView" where
  "Card p c =
     \<lparr>animate_scale = (if dimmed p then 0.96 else 1),
      animate_opacity = (if dimmed p then 0.5 else 1),
      rotateX_target = rawRotateX c,
      rotateY_target = rawRotateY c,
      glow_target = glowOpacity c,
      shown_title = title (item p),
      shown_description = description (item p)\<rparr>"

subsection \<open>SpotlightCards\<close>

text \<open>An optional prop that is omitted is \<open>None\<close>.\<close>

record SpotlightCardsProps =
  items :: "SpotlightItem list option"
  eyebrow :: "string option"
  heading :: "string option"
  className :: "string option"

record CardElement =
  key :: string
  props :: CardProps

text \<open>
  The rendered tree, as far as it depends on the props and the state: the class
  arguments handed to \<^verbatim>\<open>cn\<close> for the root, the two header texts and the grid.
\<close>

record View =
  root_classes :: "string option list"
  eyebrow_text :: string
  heading_text :: string
  grid :: "CardElement list"

definition itemsOf :: "SpotlightCardsProps \<Rightarrow> SpotlightItem list" where
  "itemsOf p = (case items p of None \<Rightarrow> DEFAULT_ITEMS | Some xs \<Rightarrow> xs)"

definition cardElement :: "hover \<Rightarrow> SpotlightItem \<Rightarrow> CardElement" where
  "cardElement hoveredTitle it =
     \<lparr>key = title it,
      props = \<lparr>item = it,
               dimmed = (hoveredTitle \<noteq> None \<and> hoveredTitle \<noteq> Some (title it)),
               onHoverStart = (\<lambda>_. Some (title it)),
               onHoverEnd = (\<lambda>_. None)\<rparr>\<rparr>"

definition SpotlightCards :: "SpotlightCardsProps \<Rightarrow> hover \<Rightarrow> View" where
  "SpotlightCards p hoveredTitle =
     \<lparr>root_classes =
        [Some ''relative w-full overflow-hidden rounded-2xl px-8 pt-9 pb-10'',
         Some ''bg-white dark:bg-[#06060f]'',
         className p],
      eyebrow_text = (case eyebrow p of None \<Rightarrow> ''Features'' | Some t \<Rightarrow> t),
      heading_text = (case heading p of None \<Rightarrow> ''Everything you need'' | Some t \<Rightarrow> t),
      grid = map (cardElement hoveredTitle) (itemsOf p)\<rparr>"

subsection \<open>A mounted instance and its events\<close>

text \<open>
  A mounted instance holds the props it was given, the container's hovered title and
  one card state per rendered item, in the order of the grid. An event names the card
  it is delivered to by its position in the grid; \<open>RefSet\<close> is React attaching or
  detaching a card's element, or the layout of that element changing. The events are
  those the component handles itself; the props stay the ones the instance was mounted
  with.
\<close>

record Instance =
  inst_props :: SpotlightCardsProps
  hoveredTitle :: hover
  cardStates :: "CardState list"

datatype event =
    MouseMove nat MouseEvent
  | MouseEnter nat
  | MouseLeave nat
  | RefSet nat "HTMLDivElement option"

definition mount :: "SpotlightCardsProps \<Rightarrow> Instance" where
  "mount p =
     \<lparr>inst_props = p, hoveredTitle = None,
      cardStates = replicate (length (itemsOf p)) initialCard\<rparr>"

definition render :: "Instance \<Rightarrow> View" where
  "render s = SpotlightCards (inst_props s) (hoveredTitle s)"

definition withCard :: "nat \<Rightarrow> Instance \<Rightarrow> (CardProps \<Rightarrow> CardState \<times> hover \<Rightarrow> CardState \<times> hover) \<Rightarrow> Instance" where
  "withCard i s handler =
     (if i < length (cardStates s) \<and> i < length (grid (render s)) then
        (case handler (props (grid (render s) ! i)) (cardStates s ! i, hoveredTitle s) of
           (c', h') \<Rightarrow> s\<lparr>hoveredTitle := h', cardStates := (cardStates s)[i := c']\<rparr>)
      else s)"

fun dispatch :: "event \<Rightarrow> Instance \<Rightarrow> Instance" where
  "dispatch (MouseMove i e) s =
     withCard i s (\<lambda>p ch. (handleMouseMove e (fst ch), snd ch))"
| "dispatch (MouseEnter i) s = withCard i s handleMouseEnter"
| "dispatch (MouseLeave i) s = withCard i s handleMouseLeave"
| "dispatch (RefSet i el) s =
     withCard i s (\<lambda>p ch. ((fst ch)\<lparr>cardRef := el\<rparr>, snd ch))"

fun run :: "event list \<Rightarrow> Instance \<Rightarrow> Instance" where
  "run [] s = s"
| "run (ev # evs) s = run evs (dispatch ev s)"




subsection \<open>Notions of the specification and sample inputs\<close>

text \<open>A rotation value is within the tilt bound when it is a number in \<open>[-TILT_MAX, TILT_MAX]\<close>.\<close>

definition withinTilt :: "jsnum \<Rightarrow> bool" where
  "withinTilt v = (case v of Num r \<Rightarrow> - TILT_MAX \<le> r \<and> r \<le> TILT_MAX | _ \<Rightarrow> False)"

definition defaultProps :: SpotlightCardsProps where
  "defaultProps = \<lparr>items = None, eyebrow = None, heading = None, className = None\<rparr>"

text \<open>Two items that share a title: the item type does not exclude it.\<close>

definition twinItems :: "SpotlightItem list" where
  "twinItems =
     [\<lparr>icon = Zap, title = ''A'', description = ''first'', color = ''#f59e0b''\<rparr>,
      \<lparr>icon = Lock, title = ''A'', description = ''second'', color = ''#60a5fa''\<rparr>]"

definition twinProps :: SpotlightCardsProps where
  "twinProps = \<lparr>items = Some twinItems, eyebrow = None, heading = None, className = None\<rparr>"

definition customProps :: SpotlightCardsProps where
  "customProps =
     \<lparr>items = Some twinItems, eyebrow = Some ''Why'', heading = Some ''Two reasons'',
      className = Some ''mt-4''\<rparr>"

definition sampleElement :: HTMLDivElement where
  "sampleElement =
     \<lparr>getBoundingClientRect =
        \<lparr>rect_left = 10, rect_top = 20, rect_width = 200, rect_height = 100\<rparr>\<rparr>"

text \<open>An element that is laid out with no extent.\<close>

definition collapsedElement :: HTMLDivElement where
  "collapsedElement =
     \<lparr>getBoundingClientRect =
        \<lparr>rect_left = 10, rect_top = 20, rect_width = 0, rect_height = 0\<rparr>\<rparr>"

definition sampleEvent :: MouseEvent where
  "sampleEvent = \<lparr>clientX = 60, clientY = 70\<rparr>"

section \<open>Properties\<close>

subsection \<open>The tilt mapping\<close>

lemma useTransform_unit:
  "useTransform (Num x) (0, 1) (a, b) =
     Num (a + (b - a) * (if 1 < x then 1 else if x < 0 then 0 else x))"
  by (simp add: useTransform_def clamp_def progress_def mixNumber_def)

lemma withinTilt_down:
  assumes "0 \<le> t" "t \<le> 1"
  shows "withinTilt (Num (TILT_MAX + (- TILT_MAX - TILT_MAX) * t))"
  using assms by (simp add: withinTilt_def TILT_MAX_def)

lemma withinTilt_up:
  assumes "0 \<le> t" "t \<le> 1"
  shows "withinTilt (Num (- TILT_MAX + (TILT_MAX - - TILT_MAX) * t))"
  using assms by (simp add: withinTilt_def TILT_MAX_def)

lemma tilt_clamped:
  "v \<noteq> NaN \<Longrightarrow> withinTilt (useTransform v (0, 1) (TILT_MAX, - TILT_MAX))
     \<and> withinTilt (useTransform v (0, 1) (- TILT_MAX, TILT_MAX))"
  by (cases v)
     (simp_all add: useTransform_def clamp_def progress_def mixNumber_def withinTilt_def TILT_MAX_def)

lemma pointer_inside_normalized:
  assumes "cardRef c = Some el"
    and "0 < rect_width (getBoundingClientRect el)"
    and "0 < rect_height (getBoundingClientRect el)"
    and "rect_left (getBoundingClientRect el) \<le> clientX e"
    and "clientX e \<le> rect_left (getBoundingClientRect el) + rect_width (getBoundingClientRect el)"
    and "rect_top (getBoundingClientRect el) \<le> clientY e"
    and "clientY e \<le> rect_top (getBoundingClientRect el) + rect_height (getBoundingClientRect el)"
  shows "\<exists>x y. normX (handleMouseMove e c) = Num x \<and> normY (handleMouseMove e c) = Num y
           \<and> 0 \<le> x \<and> x \<le> 1 \<and> 0 \<le> y \<and> y \<le> 1"
  using assms by (simp add: handleMouseMove_def js_div_def Let_def)

text \<open>
  Claim C1. Whenever the two normalized coordinates of a card are numbers in \<open>[0, 1]\<close>,
  as they are for a pointer inside the card's bounding box, both rotation targets
  computed by the tilt mapping are numbers in \<open>[-TILT_MAX, TILT_MAX]\<close>, and
  \<open>TILT_MAX\<close> is 9.
\<close>

theorem tilt_within_bounds:
  assumes "normX c = Num x" and "normY c = Num y"
    and "0 \<le> x" and "x \<le> 1" and "0 \<le> y" and "y \<le> 1"
  shows "withinTilt (rawRotateX c) \<and> withinTilt (rawRotateY c) \<and> TILT_MAX = 9"
proof -
  have "rawRotateX c = Num (TILT_MAX + (- TILT_MAX - TILT_MAX) * y)"
    using assms by (simp add: rawRotateX_def useTransform_unit)
  moreover have "rawRotateY c = Num (- TILT_MAX + (TILT_MAX - - TILT_MAX) * x)"
    using assms by (simp add: rawRotateY_def useTransform_unit)
  ultimately show ?thesis
    using assms withinTilt_down [of y] withinTilt_up [of x] by (simp add: TILT_MAX_def)
qed

theorem tilt_within_bounds_witness:
  "withinTilt (rawRotateX (initialCard\<lparr>normX := Num 1, normY := Num 0\<rparr>))
   \<and> withinTilt (rawRotateY (initialCard\<lparr>normX := Num 1, normY := Num 0\<rparr>))
   \<and> rawRotateX (initialCard\<lparr>normX := Num 1, normY := Num 0\<rparr>) = Num 9
   \<and> rawRotateY (initialCard\<lparr>normX := Num 1, normY := Num 0\<rparr>) = Num 9"
  using tilt_within_bounds [of "initialCard\<lparr>normX := Num 1, normY := Num 0\<rparr>" 1 0]
  by (simp add: rawRotateX_def rawRotateY_def useTransform_unit TILT_MAX_def)

subsection \<open>Card handlers and rendering\<close>

lemma handleMouseMove_null: "cardRef c = None \<Longrightarrow> handleMouseMove e c = c"
  by (simp add: handleMouseMove_def)

lemma handleMouseMove_glow: "glowOpacity (handleMouseMove e c) = glowOpacity c"
  by (simp add: handleMouseMove_def Let_def split: option.split)

lemma handleMouseMove_ref: "cardRef (handleMouseMove e c) = cardRef c"
  by (simp add: handleMouseMove_def Let_def split: option.split)

lemma handleMouseLeave_rendered:
  "handleMouseLeave (props (cardElement h it)) (c, h') =
     (c\<lparr>normX := Num 0.5, normY := Num 0.5, glowOpacity := 0\<rparr>, None)"
  by (simp add: handleMouseLeave_def cardElement_def)

lemma handleMouseEnter_rendered:
  "handleMouseEnter (props (cardElement h it)) (c, h') =
     (c\<lparr>glowOpacity := 1\<rparr>, Some (title it))"
  by (simp add: handleMouseEnter_def cardElement_def)

lemma Card_dimmed_view:
  "animate_scale (Card p c) = (if dimmed p then 0.96 else 1)
   \<and> animate_opacity (Card p c) = (if dimmed p then 0.5 else 1)"
  by (simp add: Card_def)

lemma grid_render: "grid (render s) = map (cardElement (hoveredTitle s)) (itemsOf (inst_props s))"
  by (simp add: render_def SpotlightCards_def)

lemma length_grid_render: "length (grid (render s)) = length (itemsOf (inst_props s))"
  by (simp add: grid_render)

lemma dimmed_cardElement:
  "dimmed (props (cardElement h it)) = (h \<noteq> None \<and> h \<noteq> Some (title it))"
  by (simp add: cardElement_def)

lemma item_cardElement: "item (props (cardElement h it)) = it"
  by (simp add: cardElement_def)

lemma key_cardElement: "key (cardElement h it) = title it"
  by (simp add: cardElement_def)

subsection \<open>Events on a mounted instance\<close>

lemma withCard_props: "inst_props (withCard i s f) = inst_props s"
  by (simp add: withCard_def split: prod.split)

lemma withCard_length: "length (cardStates (withCard i s f)) = length (cardStates s)"
  by (simp add: withCard_def split: prod.split)

lemma dispatch_props: "inst_props (dispatch ev s) = inst_props s"
  by (cases ev) (simp_all add: withCard_props)

lemma dispatch_length: "length (cardStates (dispatch ev s)) = length (cardStates s)"
  by (cases ev) (simp_all add: withCard_length)

lemma run_props: "inst_props (run evs s) = inst_props s"
  by (induction evs arbitrary: s) (simp_all add: dispatch_props)

lemma run_length: "length (cardStates (run evs s)) = length (cardStates s)"
  by (induction evs arbitrary: s) (simp_all add: dispatch_length)

lemma run_mount_props: "inst_props (run evs (mount p)) = p"
  by (simp add: run_props mount_def)

lemma run_mount_length: "length (cardStates (run evs (mount p))) = length (itemsOf p)"
  by (simp add: run_length mount_def)

lemma dispatch_move:
  "dispatch (MouseMove i e) s =
     (if i < length (cardStates s) \<and> i < length (itemsOf (inst_props s))
      then s\<lparr>cardStates := (cardStates s)[i := handleMouseMove e (cardStates s ! i)]\<rparr>
      else s)"
  by (simp add: withCard_def length_grid_render)

lemma dispatch_refset:
  "dispatch (RefSet i el) s =
     (if i < length (cardStates s) \<and> i < length (itemsOf (inst_props s))
      then s\<lparr>cardStates := (cardStates s)[i := (cardStates s ! i)\<lparr>cardRef := el\<rparr>]\<rparr>
      else s)"
  by (simp add: withCard_def length_grid_render)

lemma dispatch_enter:
  "dispatch (MouseEnter i) s =
     (if i < length (cardStates s) \<and> i < length (itemsOf (inst_props s))
      then s\<lparr>hoveredTitle := Some (title (itemsOf (inst_props s) ! i)),
             cardStates := (cardStates s)[i := (cardStates s ! i)\<lparr>glowOpacity := 1\<rparr>]\<rparr>
      else s)"
  by (simp add: withCard_def length_grid_render grid_render handleMouseEnter_rendered)

lemma dispatch_leave:
  "dispatch (MouseLeave i) s =
     (if i < length (cardStates s) \<and> i < length (itemsOf (inst_props s))
      then s\<lparr>hoveredTitle := None,
             cardStates := (cardStates s)[i := (cardStates s ! i)
                \<lparr>normX := Num 0.5, normY := Num 0.5, glowOpacity := 0\<rparr>]\<rparr>
      else s)"
  by (simp add: withCard_def length_grid_render grid_render handleMouseLeave_rendered)

declare dispatch.simps [simp del]















lemma map_update_same:
  assumes "i < length xs" and "f c' = f (xs ! i)"
  shows "map f (xs[i := c']) = map f xs"
proof -
  have "map f (xs[i := c']) = (map f xs)[i := (map f xs) ! i]"
    using assms by (simp add: map_update)
  then show ?thesis by simp
qed

subsection \<open>Hover and dimming\<close>



text \<open>
  Claim C9. The dimmed flag depends on the title only: two rendered items with the same
  title carry the same flag whatever the container holds, and once the pointer enters
  one of them the hovered title is their common title and neither card is dimmed.
\<close>

theorem dimmed_by_title:
  assumes "i < length (itemsOf p)" and "j < length (itemsOf p)"
    and "title (itemsOf p ! i) = title (itemsOf p ! j)"
  shows "dimmed (props (grid (SpotlightCards p h) ! i)) =
           dimmed (props (grid (SpotlightCards p h) ! j))
         \<and> \<not> dimmed (props (grid (SpotlightCards p (Some (title (itemsOf p ! i)))) ! i))
         \<and> \<not> dimmed (props (grid (SpotlightCards p (Some (title (itemsOf p ! i)))) ! j))
         \<and> hoveredTitle (dispatch (MouseEnter i) (run evs (mount p))) =
             Some (title (itemsOf p ! i))
         \<and> \<not> dimmed (props (grid (render (dispatch (MouseEnter i) (run evs (mount p)))) ! i))
         \<and> \<not> dimmed (props (grid (render (dispatch (MouseEnter i) (run evs (mount p)))) ! j))"
proof -
  let ?s = "run evs (mount p)"
  have st: "\<And>g. dimmed (props (grid (SpotlightCards p g) ! i)) =
              (g \<noteq> None \<and> g \<noteq> Some (title (itemsOf p ! i)))"
    "\<And>g. dimmed (props (grid (SpotlightCards p g) ! j)) =
              (g \<noteq> None \<and> g \<noteq> Some (title (itemsOf p ! j)))"
    using assms by (simp_all add: SpotlightCards_def dimmed_cardElement)
  have en: "dispatch (MouseEnter i) ?s =
      ?s\<lparr>hoveredTitle := Some (title (itemsOf p ! i)),
          cardStates := (cardStates ?s)[i := (cardStates ?s ! i)\<lparr>glowOpacity := 1\<rparr>]\<rparr>"
    using assms by (simp add: dispatch_enter run_mount_length run_mount_props)
  have re: "render (dispatch (MouseEnter i) ?s) = SpotlightCards p (Some (title (itemsOf p ! i)))"
    by (simp add: en render_def run_mount_props)
  have hv: "hoveredTitle (dispatch (MouseEnter i) ?s) = Some (title (itemsOf p ! i))"
    by (simp add: en)
  have "\<not> dimmed (props (grid (SpotlightCards p (Some (title (itemsOf p ! i)))) ! i))"
    and "\<not> dimmed (props (grid (SpotlightCards p (Some (title (itemsOf p ! i)))) ! j))"
    using assms by (simp_all add: st)
  moreover have "dimmed (props (grid (SpotlightCards p h) ! i)) =
      dimmed (props (grid (SpotlightCards p h) ! j))"
    using assms by (simp add: st)
  ultimately show ?thesis
    unfolding re hv by simp
qed

theorem dimmed_by_title_witness:
  "(0::nat) < length (itemsOf twinProps) \<and> (1::nat) < length (itemsOf twinProps)
   \<and> title (itemsOf twinProps ! 0) = title (itemsOf twinProps ! 1)
   \<and> itemsOf twinProps ! 0 \<noteq> itemsOf twinProps ! 1
   \<and> hoveredTitle (dispatch (MouseEnter 0) (run [] (mount twinProps))) = Some ''A''
   \<and> \<not> dimmed (props (grid (render (dispatch (MouseEnter 0) (run [] (mount twinProps)))) ! 0))
   \<and> \<not> dimmed (props (grid (render (dispatch (MouseEnter 0) (run [] (mount twinProps)))) ! 1))"
proof -
  have a: "(0::nat) < length (itemsOf twinProps)" and b: "(1::nat) < length (itemsOf twinProps)"
    and c: "title (itemsOf twinProps ! 0) = title (itemsOf twinProps ! 1)"
    and d: "itemsOf twinProps ! 0 \<noteq> itemsOf twinProps ! 1"
    and e: "title (itemsOf twinProps ! 0) = ''A''"
    by (simp_all add: itemsOf_def twinProps_def twinItems_def)
  from a b c d e dimmed_by_title [OF a b c, of None "[]"] show ?thesis
    by (simp del: run.simps)
qed

subsection \<open>Pointer leave\<close>

text \<open>
  Claim C3. For every rendered card, every card state and every container state, the
  pointer-leave handler sets both normalized coordinates to 0.5, the glow target to 0
  and the hovered title to none; the same holds for the event delivered to a card of an
  instance in any reachable state.
\<close>

theorem pointer_leave_resets:
  assumes "i < length (itemsOf p)"
  shows "handleMouseLeave (props (grid (SpotlightCards p h) ! i)) (c, h') =
           (c\<lparr>normX := Num 0.5, normY := Num 0.5, glowOpacity := 0\<rparr>, None)
         \<and> normX (cardStates (dispatch (MouseLeave i) (run evs (mount p))) ! i) = Num 0.5
         \<and> normY (cardStates (dispatch (MouseLeave i) (run evs (mount p))) ! i) = Num 0.5
         \<and> glowOpacity (cardStates (dispatch (MouseLeave i) (run evs (mount p))) ! i) = 0
         \<and> hoveredTitle (dispatch (MouseLeave i) (run evs (mount p))) = None"
proof -
  have "handleMouseLeave (props (grid (SpotlightCards p h) ! i)) (c, h') =
          (c\<lparr>normX := Num 0.5, normY := Num 0.5, glowOpacity := 0\<rparr>, None)"
    using assms by (simp add: SpotlightCards_def handleMouseLeave_rendered)
  moreover have "i < length (cardStates (run evs (mount p)))"
    and "i < length (itemsOf (inst_props (run evs (mount p))))"
    using assms by (simp_all add: run_mount_length run_mount_props)
  ultimately show ?thesis
    by (simp add: dispatch_leave)
qed

theorem pointer_leave_resets_witness:
  "(2::nat) < length (itemsOf defaultProps)
   \<and> normX (cardStates (dispatch (MouseLeave 2)
        (run [MouseEnter 2, RefSet 2 (Some sampleElement), MouseMove 2 sampleEvent]
           (mount defaultProps))) ! 2) = Num 0.5
   \<and> normY (cardStates (dispatch (MouseLeave 2)
        (run [MouseEnter 2, RefSet 2 (Some sampleElement), MouseMove 2 sampleEvent]
           (mount defaultProps))) ! 2) = Num 0.5
   \<and> glowOpacity (cardStates (dispatch (MouseLeave 2)
        (run [MouseEnter 2, RefSet 2 (Some sampleElement), MouseMove 2 sampleEvent]
           (mount defaultProps))) ! 2) = 0
   \<and> hoveredTitle (dispatch (MouseLeave 2)
        (run [MouseEnter 2, RefSet 2 (Some sampleElement), MouseMove 2 sampleEvent]
           (mount defaultProps))) = None"
proof -
  have l: "(2::nat) < length (itemsOf defaultProps)"
    by (simp add: itemsOf_def defaultProps_def DEFAULT_ITEMS_def)
  from l pointer_leave_resets [OF l, of None initialCard None
      "[MouseEnter 2, RefSet 2 (Some sampleElement), MouseMove 2 sampleEvent]"]
  show ?thesis by blast
qed

subsection \<open>Pointer move\<close>

text \<open>
  Claim C4. When the card's element is available, the pointer-move handler stores as
  normalized coordinates the quotients \<open>(clientX - rect.left) / rect.width\<close> and
  \<open>(clientY - rect.top) / rect.height\<close> of the element's bounding box; where the
  width or height is zero the JavaScript division gives NaN for a zero numerator and
  otherwise the infinity of the numerator's sign. The rotation about the x-axis is the
  tilt mapping of the y quotient and the rotation about the y-axis is the tilt mapping
  of the x quotient.
\<close>

theorem pointer_move_normalizes:
  assumes "cardRef c = Some el"
  shows "normX (handleMouseMove e c) =
           (if rect_width (getBoundingClientRect el) \<noteq> 0
            then Num ((clientX e - rect_left (getBoundingClientRect el))
                        / rect_width (getBoundingClientRect el))
            else if clientX e - rect_left (getBoundingClientRect el) = 0 then NaN
            else if 0 < clientX e - rect_left (getBoundingClientRect el) then Infinity
            else NegInfinity)
         \<and> normY (handleMouseMove e c) =
           (if rect_height (getBoundingClientRect el) \<noteq> 0
            then Num ((clientY e - rect_top (getBoundingClientRect el))
                        / rect_height (getBoundingClientRect el))
            else if clientY e - rect_top (getBoundingClientRect el) = 0 then NaN
            else if 0 < clientY e - rect_top (getBoundingClientRect el) then Infinity
            else NegInfinity)
         \<and> rawRotateX (handleMouseMove e c) =
           useTransform
             (if rect_height (getBoundingClientRect el) \<noteq> 0
              then Num ((clientY e - rect_top (getBoundingClientRect el))
                          / rect_height (getBoundingClientRect el))
              else if clientY e - rect_top (getBoundingClientRect el) = 0 then NaN
              else if 0 < clientY e - rect_top (getBoundingClientRect el) then Infinity
              else NegInfinity)
             (0, 1) (TILT_MAX, - TILT_MAX)
         \<and> rawRotateY (handleMouseMove e c) =
           useTransform
             (if rect_width (getBoundingClientRect el) \<noteq> 0
              then Num ((clientX e - rect_left (getBoundingClientRect el))
                          / rect_width (getBoundingClientRect el))
              else if clientX e - rect_left (getBoundingClientRect el) = 0 then NaN
              else if 0 < clientX e - rect_left (getBoundingClientRect el) then Infinity
              else NegInfinity)
             (0, 1) (- TILT_MAX, TILT_MAX)"
proof -
  let ?r = "getBoundingClientRect el"
  have x: "normX (handleMouseMove e c) = js_div (clientX e - rect_left ?r) (rect_width ?r)"
    and y: "normY (handleMouseMove e c) = js_div (clientY e - rect_top ?r) (rect_height ?r)"
    using assms by (simp_all add: handleMouseMove_def Let_def)
  show ?thesis
    unfolding rawRotateX_def rawRotateY_def x y js_div_def by simp
qed

theorem pointer_move_normalizes_witness:
  "cardRef (initialCard\<lparr>cardRef := Some sampleElement\<rparr>) = Some sampleElement
   \<and> normX (handleMouseMove sampleEvent (initialCard\<lparr>cardRef := Some sampleElement\<rparr>)) = Num (1 / 4)
   \<and> normY (handleMouseMove sampleEvent (initialCard\<lparr>cardRef := Some sampleElement\<rparr>)) = Num (1 / 2)
   \<and> rawRotateX (handleMouseMove sampleEvent (initialCard\<lparr>cardRef := Some sampleElement\<rparr>)) = Num 0
   \<and> rawRotateY (handleMouseMove sampleEvent (initialCard\<lparr>cardRef := Some sampleElement\<rparr>)) = Num (- 9 / 2)
   \<and> cardRef (initialCard\<lparr>cardRef := Some collapsedElement\<rparr>) = Some collapsedElement
   \<and> normX (handleMouseMove sampleEvent (initialCard\<lparr>cardRef := Some collapsedElement\<rparr>)) = Infinity
   \<and> normY (handleMouseMove sampleEvent (initialCard\<lparr>cardRef := Some collapsedElement\<rparr>)) = Infinity"
proof -
  have r: "cardRef (initialCard\<lparr>cardRef := Some sampleElement\<rparr>) = Some sampleElement"
    and k: "cardRef (initialCard\<lparr>cardRef := Some collapsedElement\<rparr>) = Some collapsedElement"
    by simp_all
  from r k pointer_move_normalizes [OF r, of sampleEvent]
    pointer_move_normalizes [OF k, of sampleEvent]
  show ?thesis
    by (simp add: sampleElement_def collapsedElement_def sampleEvent_def useTransform_def
          clamp_def progress_def mixNumber_def TILT_MAX_def)
qed

text \<open>
  Claim C8. When the card's element reference is null, the pointer-move handler returns
  the card state as it was: no bounding box is read and the normalized coordinates keep
  their values.
\<close>

theorem pointer_move_without_ref:
  assumes "cardRef c = None"
  shows "handleMouseMove e c = c
         \<and> normX (handleMouseMove e c) = normX c
         \<and> normY (handleMouseMove e c) = normY c"
  using assms by (simp add: handleMouseMove_def)

theorem pointer_move_without_ref_witness:
  "cardRef initialCard = None
   \<and> handleMouseMove sampleEvent initialCard = initialCard
   \<and> normX (handleMouseMove sampleEvent initialCard) = Num 0.5
   \<and> normY (handleMouseMove sampleEvent initialCard) = Num 0.5"
proof -
  have r: "cardRef initialCard = None" by (simp add: initialCard_def)
  from r pointer_move_without_ref [OF r, of sampleEvent] show ?thesis
    by (simp add: initialCard_def)
qed

text \<open>
  Claim C10. A pointer-move event changes nothing but the normalized coordinates of the
  card it is delivered to: the glow targets, the element references, the hovered title,
  the props (and with them the item data) and every other card are as before. The
  hovered title and the glow targets change on pointer enter and pointer leave only,
  and no event changes the props.
\<close>

theorem pointer_move_frame:
  "glowOpacity (handleMouseMove e c) = glowOpacity c
   \<and> hoveredTitle (dispatch (MouseMove i e) s) = hoveredTitle s
   \<and> inst_props (dispatch (MouseMove i e) s) = inst_props s
   \<and> map glowOpacity (cardStates (dispatch (MouseMove i e) s)) = map glowOpacity (cardStates s)
   \<and> map cardRef (cardStates (dispatch (MouseMove i e) s)) = map cardRef (cardStates s)
   \<and> (\<forall>j. j \<noteq> i \<longrightarrow> cardStates (dispatch (MouseMove i e) s) ! j = cardStates s ! j)
   \<and> ((\<forall>k. ev \<noteq> MouseEnter k \<and> ev \<noteq> MouseLeave k) \<longrightarrow>
         hoveredTitle (dispatch ev s) = hoveredTitle s
         \<and> map glowOpacity (cardStates (dispatch ev s)) = map glowOpacity (cardStates s))
   \<and> inst_props (dispatch ev s) = inst_props s"
proof -
  have mv: "hoveredTitle (dispatch (MouseMove k e') s) = hoveredTitle s
      \<and> map glowOpacity (cardStates (dispatch (MouseMove k e') s)) = map glowOpacity (cardStates s)
      \<and> map cardRef (cardStates (dispatch (MouseMove k e') s)) = map cardRef (cardStates s)"
    for k e'
    by (simp add: dispatch_move map_update_same handleMouseMove_glow handleMouseMove_ref)
  have rf: "hoveredTitle (dispatch (RefSet k el) s) = hoveredTitle s
      \<and> map glowOpacity (cardStates (dispatch (RefSet k el) s)) = map glowOpacity (cardStates s)"
    for k el
    by (simp add: dispatch_refset map_update_same)
  have other: "j \<noteq> i \<Longrightarrow> cardStates (dispatch (MouseMove i e) s) ! j = cardStates s ! j" for j
    by (simp add: dispatch_move)
  have only: "(\<forall>k. ev \<noteq> MouseEnter k \<and> ev \<noteq> MouseLeave k) \<longrightarrow>
         hoveredTitle (dispatch ev s) = hoveredTitle s
         \<and> map glowOpacity (cardStates (dispatch ev s)) = map glowOpacity (cardStates s)"
    using mv rf by (cases ev) (simp_all)
  show ?thesis
    using mv [of i e] other only
    by (simp add: handleMouseMove_glow dispatch_props)
qed

theorem pointer_move_frame_witness:
  "hoveredTitle (run [RefSet 0 (Some sampleElement), MouseEnter 0] (mount twinProps)) = Some ''A''
   \<and> hoveredTitle (dispatch (MouseMove 0 sampleEvent)
        (run [RefSet 0 (Some sampleElement), MouseEnter 0] (mount twinProps))) = Some ''A''
   \<and> map glowOpacity (cardStates (dispatch (MouseMove 0 sampleEvent)
        (run [RefSet 0 (Some sampleElement), MouseEnter 0] (mount twinProps)))) = [1, 0]
   \<and> normX (cardStates (dispatch (MouseMove 0 sampleEvent)
        (run [RefSet 0 (Some sampleElement), MouseEnter 0] (mount twinProps))) ! 0) = Num (1 / 4)
   \<and> cardStates (dispatch (MouseMove 0 sampleEvent)
        (run [RefSet 0 (Some sampleElement), MouseEnter 0] (mount twinProps))) ! 1 = initialCard
   \<and> hoveredTitle (dispatch (RefSet 1 None)
        (run [RefSet 0 (Some sampleElement), MouseEnter 0] (mount twinProps))) = Some ''A''"
proof -
  let ?s = "run [RefSet 0 (Some sampleElement), MouseEnter 0] (mount twinProps)"
  have s: "?s = \<lparr>inst_props = twinProps, hoveredTitle = Some ''A'',
      cardStates = [initialCard\<lparr>cardRef := Some sampleElement, glowOpacity := 1\<rparr>, initialCard]\<rparr>"
    by (simp add: dispatch_refset dispatch_enter mount_def itemsOf_def twinProps_def twinItems_def)
  have x: "normX (cardStates (dispatch (MouseMove 0 sampleEvent) ?s) ! 0) = Num (1 / 4)"
    unfolding s
    by (simp add: dispatch_move itemsOf_def twinProps_def twinItems_def handleMouseMove_def
          sampleElement_def sampleEvent_def js_div_def initialCard_def)
  have ne: "\<forall>k. RefSet 1 None \<noteq> MouseEnter k \<and> RefSet 1 None \<noteq> MouseLeave k"
    by simp
  have g: "map glowOpacity (cardStates ?s) = [1, 0]" "hoveredTitle ?s = Some ''A''"
    "cardStates ?s ! 1 = initialCard"
    unfolding s by (simp_all add: initialCard_def)
  from pointer_move_frame [of sampleEvent initialCard 0 ?s "RefSet 1 None"] ne g x
  show ?thesis
    by (simp del: run.simps)
qed

subsection \<open>Rendering the item list\<close>

text \<open>
  Claim C5. For every item list the caller supplies, the grid holds exactly one card per
  item, in the order of the list, and the key of each card is the title of its item.
\<close>

theorem one_card_per_item:
  assumes "items p = Some xs"
  shows "map (\<lambda>el. item (props el)) (grid (SpotlightCards p h)) = xs
         \<and> map key (grid (SpotlightCards p h)) = map title xs
         \<and> length (grid (SpotlightCards p h)) = length xs"
  using assms
  by (simp add: SpotlightCards_def itemsOf_def o_def item_cardElement key_cardElement)

theorem one_card_per_item_witness:
  "items twinProps = Some twinItems
   \<and> map (\<lambda>el. item (props el)) (grid (SpotlightCards twinProps None)) = twinItems
   \<and> map key (grid (SpotlightCards twinProps None)) = [''A'', ''A'']
   \<and> length (grid (SpotlightCards twinProps None)) = 2"
proof -
  have i: "items twinProps = Some twinItems" by (simp add: twinProps_def)
  from i one_card_per_item [OF i, of None] show ?thesis
    by (simp add: twinItems_def)
qed

text \<open>
  Claim C6. With an empty item list the grid is empty and the instance holds no card
  state, after any sequence of events; rendering has no failing branch.
\<close>

theorem empty_items_empty_grid:
  "grid (SpotlightCards \<lparr>items = Some [], eyebrow = eb, heading = hg, className = cl\<rparr> h) = []
   \<and> cardStates (run evs (mount \<lparr>items = Some [], eyebrow = eb, heading = hg, className = cl\<rparr>)) = []"
proof -
  let ?p = "\<lparr>items = Some [], eyebrow = eb, heading = hg, className = cl\<rparr>"
  have "itemsOf ?p = []" by (simp add: itemsOf_def)
  then have "length (cardStates (run evs (mount ?p))) = 0"
    by (simp add: run_mount_length)
  then show ?thesis by (simp add: SpotlightCards_def itemsOf_def)
qed

text \<open>
  Claim C7. The props are exactly the four optional fields items, eyebrow, heading and
  className. When items is omitted the grid shows the default items, of which there are
  some; when eyebrow or heading is omitted the text is the default one; a value that is
  supplied is used as it is, and className is handed on to the root's class list.
\<close>

theorem props_defaults:
  "p = \<lparr>items = items p, eyebrow = eyebrow p, heading = heading p, className = className p\<rparr>
   \<and> (items p = None \<longrightarrow>
        map (\<lambda>el. item (props el)) (grid (SpotlightCards p h)) = DEFAULT_ITEMS)
   \<and> DEFAULT_ITEMS \<noteq> []
   \<and> (eyebrow p = None \<longrightarrow> eyebrow_text (SpotlightCards p h) = ''Features'')
   \<and> (heading p = None \<longrightarrow> heading_text (SpotlightCards p h) = ''Everything you need'')
   \<and> (items p = Some xs \<longrightarrow> map (\<lambda>el. item (props el)) (grid (SpotlightCards p h)) = xs)
   \<and> (eyebrow p = Some eb \<longrightarrow> eyebrow_text (SpotlightCards p h) = eb)
   \<and> (heading p = Some hg \<longrightarrow> heading_text (SpotlightCards p h) = hg)
   \<and> last (root_classes (SpotlightCards p h)) = className p"
proof -
  have "DEFAULT_ITEMS \<noteq> []" by (simp add: DEFAULT_ITEMS_def)
  then show ?thesis
    by (simp add: SpotlightCards_def itemsOf_def o_def item_cardElement)
qed

theorem props_defaults_witness:
  "items defaultProps = None \<and> eyebrow defaultProps = None \<and> heading defaultProps = None
   \<and> length (grid (SpotlightCards defaultProps None)) = 6
   \<and> eyebrow_text (SpotlightCards defaultProps None) = ''Features''
   \<and> heading_text (SpotlightCards defaultProps None) = ''Everything you need''
   \<and> items customProps = Some twinItems
   \<and> map (\<lambda>el. item (props el)) (grid (SpotlightCards customProps None)) = twinItems
   \<and> eyebrow_text (SpotlightCards customProps None) = ''Why''
   \<and> heading_text (SpotlightCards customProps None) = ''Two reasons''
   \<and> last (root_classes (SpotlightCards customProps None)) = Some ''mt-4''"
proof -
  have d: "items defaultProps = None" "eyebrow defaultProps = None" "heading defaultProps = None"
    by (simp_all add: defaultProps_def)
  have t: "items customProps = Some twinItems" "eyebrow customProps = Some ''Why''"
    "heading customProps = Some ''Two reasons''" "className customProps = Some ''mt-4''"
    by (simp_all add: customProps_def)
  have "map (\<lambda>el. item (props el)) (grid (SpotlightCards defaultProps None)) = DEFAULT_ITEMS"
    using props_defaults [of defaultProps None] d by blast
  then have "length (map (\<lambda>el. item (props el)) (grid (SpotlightCards defaultProps None))) = 6"
    by (simp add: DEFAULT_ITEMS_def)
  then have "length (grid (SpotlightCards defaultProps None)) = 6" by simp
  with d t props_defaults [of defaultProps None]
    props_defaults [of customProps None twinItems "''Why''" "''Two reasons''"]
  show ?thesis by simp
qed

end
